theory Spec2Isabelle
  imports Complex_Main "HOL-Library.AList"
begin

section \<open>Session manager (src/src/session_manager.py)\<close>

text \<open>
  Python dictionaries are association lists with distinct keys kept in insertion
  order: \<open>d[k] = v\<close> is \<^const>\<open>AList.update\<close> (replace in place, else append),
  \<open>del d[k]\<close> is \<^const>\<open>AList.delete\<close>, \<open>k in d\<close> and \<open>d.get(k, dflt)\<close> read
  through \<^const>\<open>map_of\<close>.  Timestamps (\<open>datetime\<close>) are microseconds as \<open>int\<close>.
\<close>

type_synonym ('k, 'v) dict = "('k \<times> 'v) list"

definition dict_in :: "'k \<Rightarrow> ('k, 'v) dict \<Rightarrow> bool" where
  "dict_in k d = (map_of d k \<noteq> None)"

definition dict_get :: "('k, 'v) dict \<Rightarrow> 'k \<Rightarrow> 'v \<Rightarrow> 'v" where
  "dict_get d k dflt = (case map_of d k of None \<Rightarrow> dflt | Some v \<Rightarrow> v)"

record session_info =
  email :: string
  phone :: string
  language :: string
  created_at :: int
  last_activity :: int
  question_count :: int
  product_involved :: "string option"
  expert_contacted :: bool

record session_manager =
  active_sessions :: "(string, session_info) dict"
  session_counters :: "(string, int) dict"
  feedback_shown :: "(string, bool) dict"

text \<open>\<open>SessionManager.__init__\<close>: three empty dictionaries.\<close>

definition init_session_manager :: session_manager where
  "init_session_manager =
     \<lparr>active_sessions = [], session_counters = [], feedback_shown = []\<rparr>"

text \<open>\<open>SESSION_TIMEOUT = 3600\<close> seconds (config/settings.py); \<open>timedelta_seconds\<close> is
  \<open>timedelta(seconds=n)\<close> in microseconds.\<close>

definition SESSION_TIMEOUT :: int where
  "SESSION_TIMEOUT = 3600"

definition timedelta_seconds :: "int \<Rightarrow> int" where
  "timedelta_seconds n = n * 1000000"

text \<open>
  A call into the durable layer (\<open>db_manager\<close>) either returns a value or raises; the
  database module catches only the connector's own \<open>Error\<close>, so any other exception
  (for instance a cursor that was never opened) reaches the caller's
  \<open>except Exception\<close>.
\<close>

datatype 'a db_outcome = Returned 'a | Raised

text \<open>
  \<open>create_session\<close>.  The generated \<open>uuid4\<close> string, the two outcomes of the durable
  layer and the two readings of the clock are inputs.  \<open>if not user_id\<close> rejects both
  \<open>None\<close> and \<open>0\<close>.  Every failing branch returns \<open>None\<close>.
\<close>

definition create_session ::
  "session_manager \<Rightarrow> string \<Rightarrow> int option db_outcome \<Rightarrow> bool db_outcome \<Rightarrow> int \<Rightarrow> int
     \<Rightarrow> string \<Rightarrow> string \<Rightarrow> string \<Rightarrow> string option \<times> session_manager" where
  "create_session s session_id user_id_res created_res now1 now2 em ph lang =
     (case user_id_res of
        Raised \<Rightarrow> (None, s)
      | Returned None \<Rightarrow> (None, s)
      | Returned (Some user_id) \<Rightarrow>
          if user_id = 0 then (None, s)
          else (case created_res of
                  Raised \<Rightarrow> (None, s)
                | Returned False \<Rightarrow> (None, s)
                | Returned True \<Rightarrow>
                    (Some session_id,
                     s\<lparr>active_sessions :=
                          AList.update session_id
                            \<lparr>email = em, phone = ph, language = lang, created_at = now1,
                             last_activity = now2, question_count = 0,
                             product_involved = None, expert_contacted = False\<rparr>
                            (active_sessions s),
                        session_counters := AList.update session_id 0 (session_counters s),
                        feedback_shown := AList.update session_id False (feedback_shown s)\<rparr>)))"

definition get_session_info :: "session_manager \<Rightarrow> string \<Rightarrow> session_info option" where
  "get_session_info s session_id =
     (case map_of (active_sessions s) session_id of
        Some info \<Rightarrow> Some (info\<lparr>question_count := dict_get (session_counters s) session_id 0\<rparr>)
      | None \<Rightarrow> None)"

text \<open>\<open>update_session_activity\<close> returns nothing; an unknown id is silently skipped.\<close>

definition update_session_activity :: "session_manager \<Rightarrow> int \<Rightarrow> string \<Rightarrow> session_manager" where
  "update_session_activity s now session_id =
     (case map_of (active_sessions s) session_id of
        Some info \<Rightarrow>
          s\<lparr>active_sessions :=
              AList.update session_id (info\<lparr>last_activity := now\<rparr>) (active_sessions s)\<rparr>
      | None \<Rightarrow> s)"

definition increment_question_count :: "session_manager \<Rightarrow> string \<Rightarrow> int \<times> session_manager" where
  "increment_question_count s session_id =
     (let current_count = dict_get (session_counters s) session_id 0;
          new_count = current_count + 1;
          s1 = s\<lparr>session_counters := AList.update session_id new_count (session_counters s)\<rparr>;
          s2 = (case map_of (active_sessions s1) session_id of
                  Some info \<Rightarrow>
                    s1\<lparr>active_sessions :=
                         AList.update session_id (info\<lparr>question_count := new_count\<rparr>)
                           (active_sessions s1)\<rparr>
                | None \<Rightarrow> s1)
      in (new_count, s2))"

text \<open>\<open>should_show_feedback\<close>; the first argument is \<open>FEEDBACK_INTERVAL\<close>, read from the
  environment with default 3.\<close>

definition should_show_feedback ::
  "int \<Rightarrow> session_manager \<Rightarrow> string \<Rightarrow> bool \<times> session_manager" where
  "should_show_feedback FEEDBACK_INTERVAL s session_id =
     (let question_count = dict_get (session_counters s) session_id 0;
          feedback_already_shown = dict_get (feedback_shown s) session_id False;
          should_end = (question_count \<ge> FEEDBACK_INTERVAL \<and> \<not> feedback_already_shown)
      in if should_end
         then (should_end, s\<lparr>feedback_shown := AList.update session_id True (feedback_shown s)\<rparr>)
         else (should_end, s))"

definition should_end_session ::
  "int \<Rightarrow> session_manager \<Rightarrow> string \<Rightarrow> bool \<times> session_manager" where
  "should_end_session FEEDBACK_INTERVAL s session_id =
     should_show_feedback FEEDBACK_INTERVAL s session_id"

definition end_session :: "session_manager \<Rightarrow> string \<Rightarrow> session_manager" where
  "end_session s session_id =
     (if dict_in session_id (active_sessions s)
      then (let s1 = s\<lparr>active_sessions := AList.delete session_id (active_sessions s)\<rparr>;
                s2 = (if dict_in session_id (session_counters s1)
                      then s1\<lparr>session_counters := AList.delete session_id (session_counters s1)\<rparr>
                      else s1);
                s3 = (if dict_in session_id (feedback_shown s2)
                      then s2\<lparr>feedback_shown := AList.delete session_id (feedback_shown s2)\<rparr>
                      else s2)
            in s3)
      else s)"

definition force_end_session :: "session_manager \<Rightarrow> string \<Rightarrow> bool \<times> session_manager" where
  "force_end_session s session_id = (True, end_session s session_id)"

text \<open>\<open>add_message_to_history\<close>: \<open>db_res\<close> is the outcome of \<open>db_manager.add_message\<close>.\<close>

definition add_message_to_history ::
  "session_manager \<Rightarrow> bool db_outcome \<Rightarrow> int \<Rightarrow> string \<Rightarrow> string \<Rightarrow> string
     \<Rightarrow> bool \<times> session_manager" where
  "add_message_to_history s db_res now session_id message_type content =
     (case db_res of
        Raised \<Rightarrow> (False, s)
      | Returned False \<Rightarrow> (False, s)
      | Returned True \<Rightarrow>
          (let s1 = update_session_activity s now session_id;
               s2 = (if message_type = ''user''
                     then snd (increment_question_count s1 session_id) else s1)
           in (True, s2)))"

definition update_session_product :: "session_manager \<Rightarrow> string \<Rightarrow> string \<Rightarrow> session_manager" where
  "update_session_product s session_id product_name =
     (case map_of (active_sessions s) session_id of
        Some info \<Rightarrow>
          s\<lparr>active_sessions :=
              AList.update session_id (info\<lparr>product_involved := Some product_name\<rparr>) (active_sessions s)\<rparr>
      | None \<Rightarrow> s)"

definition mark_expert_contacted :: "session_manager \<Rightarrow> string \<Rightarrow> session_manager" where
  "mark_expert_contacted s session_id =
     (case map_of (active_sessions s) session_id of
        Some info \<Rightarrow>
          s\<lparr>active_sessions :=
              AList.update session_id (info\<lparr>expert_contacted := True\<rparr>) (active_sessions s)\<rparr>
      | None \<Rightarrow> s)"

definition is_session_active :: "session_manager \<Rightarrow> int \<Rightarrow> string \<Rightarrow> bool \<times> session_manager" where
  "is_session_active s now session_id =
     (case map_of (active_sessions s) session_id of
        None \<Rightarrow> (False, s)
      | Some info \<Rightarrow>
          (let timeout_threshold = now - timedelta_seconds SESSION_TIMEOUT
           in if last_activity info < timeout_threshold
              then (False, end_session s session_id)
              else (True, s)))"

definition reset_feedback_flag :: "session_manager \<Rightarrow> string \<Rightarrow> session_manager" where
  "reset_feedback_flag s session_id =
     (if dict_in session_id (feedback_shown s)
      then s\<lparr>feedback_shown := AList.update session_id False (feedback_shown s)\<rparr>
      else s)"

text \<open>\<open>cleanup_expired_sessions\<close>: the first loop collects the expired ids, the second
  ends each of them.\<close>

definition expired_sessions :: "session_manager \<Rightarrow> int \<Rightarrow> string list" where
  "expired_sessions s current_time =
     map fst (filter (\<lambda>(session_id, info).
                 last_activity info < current_time - timedelta_seconds SESSION_TIMEOUT)
              (active_sessions s))"

definition cleanup_expired_sessions :: "session_manager \<Rightarrow> int \<Rightarrow> session_manager" where
  "cleanup_expired_sessions s current_time =
     fold (\<lambda>session_id s'. end_session s' session_id) (expired_sessions s current_time) s"


text \<open>Calls of the feedback gate and of the question counter, as issued by the request
  handlers, and the results the gate returns along a sequence of them.\<close>

datatype gate_call = ShowFeedback string | EndSession string | Increment string

fun gate_run :: "int \<Rightarrow> session_manager \<Rightarrow> gate_call list \<Rightarrow> (string \<times> bool) list" where
  "gate_run fi s [] = []"
| "gate_run fi s (ShowFeedback sid # cs) =
     (sid, fst (should_show_feedback fi s sid)) #
       gate_run fi (snd (should_show_feedback fi s sid)) cs"
| "gate_run fi s (EndSession sid # cs) =
     (sid, fst (should_end_session fi s sid)) #
       gate_run fi (snd (should_end_session fi s sid)) cs"
| "gate_run fi s (Increment sid # cs) =
     gate_run fi (snd (increment_question_count s sid)) cs"

text \<open>Every state-changing operation the session manager exposes, with the inputs the
  environment supplies (generated id, clock readings, outcomes of the durable layer).\<close>

datatype sm_op =
    CreateSession string "int option db_outcome" "bool db_outcome" int int string string string
  | UpdateSessionActivity int string
  | IncrementQuestionCount string
  | ShouldShowFeedback string
  | ShouldEndSession string
  | ForceEndSession string
  | AddMessageToHistory "bool db_outcome" int string string string
  | UpdateSessionProduct string string
  | MarkExpertContacted string
  | IsSessionActive int string
  | EndSessionOp string
  | ResetFeedbackFlag string
  | CleanupExpiredSessions int

fun sm_step :: "int \<Rightarrow> session_manager \<Rightarrow> sm_op \<Rightarrow> session_manager" where
  "sm_step fi s (CreateSession sid u c t1 t2 em ph lang) =
     snd (create_session s sid u c t1 t2 em ph lang)"
| "sm_step fi s (UpdateSessionActivity now sid) = update_session_activity s now sid"
| "sm_step fi s (IncrementQuestionCount sid) = snd (increment_question_count s sid)"
| "sm_step fi s (ShouldShowFeedback sid) = snd (should_show_feedback fi s sid)"
| "sm_step fi s (ShouldEndSession sid) = snd (should_end_session fi s sid)"
| "sm_step fi s (ForceEndSession sid) = snd (force_end_session s sid)"
| "sm_step fi s (AddMessageToHistory r now sid mt content) =
     snd (add_message_to_history s r now sid mt content)"
| "sm_step fi s (UpdateSessionProduct sid p) = update_session_product s sid p"
| "sm_step fi s (MarkExpertContacted sid) = mark_expert_contacted s sid"
| "sm_step fi s (IsSessionActive now sid) = snd (is_session_active s now sid)"
| "sm_step fi s (EndSessionOp sid) = end_session s sid"
| "sm_step fi s (ResetFeedbackFlag sid) = reset_feedback_flag s sid"
| "sm_step fi s (CleanupExpiredSessions now) = cleanup_expired_sessions s now"

section \<open>Strings\<close>









fun startswith :: "string \<Rightarrow> string \<Rightarrow> bool" where
  "startswith s [] = True"
| "startswith [] (k # ks) = False"
| "startswith (c # cs) (k # ks) = (c = k \<and> startswith cs ks)"

fun str_contains :: "string \<Rightarrow> string \<Rightarrow> bool" where
  "str_contains [] sub = (sub = [])"
| "str_contains (c # cs) sub = (startswith (c # cs) sub \<or> str_contains cs sub)"

section \<open>Sequence similarity (\<open>difflib.SequenceMatcher(None, a, b).ratio()\<close>)\<close>











section \<open>Settings (config/settings.py)\<close>

text \<open>Expert dictionaries: a product's expert has no \<open>title\<close> and no \<open>specialties\<close>
  key, an overall expert has both.\<close>

record expert =
  expert_name :: string
  expert_title :: "string option"
  expert_email :: string
  expert_phone :: string
  expert_specialties :: "string list option"

record product =
  product_name :: string
  product_description :: string
  product_expert :: expert

definition IOT_PRODUCTS :: "product list" where
  "IOT_PRODUCTS =
     [\<lparr>product_name = ''Smart Home Hub'',
       product_description = ''Central control unit for smart home devices'',
       product_expert = \<lparr>expert_name = ''John Smith'', expert_title = None,
          expert_email = ''john.smith@company.com'', expert_phone = ''+1-555-0101'',
          expert_specialties = None\<rparr>\<rparr>,
      \<lparr>product_name = ''Security Camera System'',
       product_description = ''Wireless security camera with AI detection'',
       product_expert = \<lparr>expert_name = ''Sarah Johnson'', expert_title = None,
          expert_email = ''sarah.johnson@company.com'', expert_phone = ''+1-555-0102'',
          expert_specialties = None\<rparr>\<rparr>,
      \<lparr>product_name = ''Smart Thermostat'',
       product_description = ''AI-powered temperature control system'',
       product_expert = \<lparr>expert_name = ''Mike Chen'', expert_title = None,
          expert_email = ''mike.chen@company.com'', expert_phone = ''+1-555-0103'',
          expert_specialties = None\<rparr>\<rparr>,
      \<lparr>product_name = ''Smart Lighting System'',
       product_description = ''Automated lighting control with voice commands'',
       product_expert = \<lparr>expert_name = ''Lisa Wang'', expert_title = None,
          expert_email = ''lisa.wang@company.com'', expert_phone = ''+1-555-0104'',
          expert_specialties = None\<rparr>\<rparr>]"

definition OVERALL_EXPERTS :: "expert list" where
  "OVERALL_EXPERTS =
     [\<lparr>expert_name = ''Dr. Emily Rodriguez'',
       expert_title = Some ''Senior IOT Technical Lead'',
       expert_email = ''emily.rodriguez@company.com'', expert_phone = ''+1-555-0201'',
       expert_specialties =
         Some [''All IOT Products'', ''System Integration'', ''Technical Architecture'']\<rparr>,
      \<lparr>expert_name = ''Alex Thompson'',
       expert_title = Some ''IOT Customer Success Manager'',
       expert_email = ''alex.thompson@company.com'', expert_phone = ''+1-555-0202'',
       expert_specialties =
         Some [''Customer Support'', ''Product Training'', ''Troubleshooting'']\<rparr>]"

section \<open>Product router (src/src/product_router.py)\<close>












text \<open>\<open>get_expert_contact\<close>, with the two settings it reads as arguments.  \<open>if
  product_name:\<close> is false for \<open>None\<close> and for the empty string.\<close>

definition truthy :: "string option \<Rightarrow> bool" where
  "truthy x = (case x of None \<Rightarrow> False | Some v \<Rightarrow> v \<noteq> [])"

fun product_loop :: "product list \<Rightarrow> string \<Rightarrow> expert option" where
  "product_loop [] name = None"
| "product_loop (p # ps) name =
     (if product_name p = name then Some (product_expert p) else product_loop ps name)"

definition overall_expert :: "expert list \<Rightarrow> expert option" where
  "overall_expert overall = (case overall of [] \<Rightarrow> None | e # _ \<Rightarrow> Some e)"

definition router_get_expert_contact ::
  "product list \<Rightarrow> expert list \<Rightarrow> string option \<Rightarrow> expert option" where
  "router_get_expert_contact products overall name =
     (case (if truthy name then product_loop products (the name) else None) of
        Some e \<Rightarrow> Some e
      | None \<Rightarrow> overall_expert overall)"




section \<open>Feedback manager (src/src/feedback_manager.py)\<close>

text \<open>The stored templates; icons are kept as the code points of the source literal.\<close>

record template_entry =
  entry_title :: string
  entry_message :: string
  entry_icon :: "nat list"
  entry_title_malay :: string
  entry_message_malay :: string

record template =
  title :: string
  message :: string
  icon :: "nat list"

definition feedback_templates :: "(string, template_entry) dict" where
  "feedback_templates =
     [(''satisfied'',
       \<lparr>entry_title = ''Thank you for your feedback!'',
        entry_message = ''We're glad we could help you with your IOT product questions. If you need further assistance, feel free to contact our product expert.'',
        entry_icon = [0xE2, 0x153, 0x2026],
        entry_title_malay = ''Terima kasih atas maklum balas anda!'',
        entry_message_malay = ''Kami gembira dapat membantu anda dengan soalan produk IOT anda. Jika anda memerlukan bantuan lanjut, sila hubungi pakar produk kami.''\<rparr>),
      (''unsatisfied'',
       \<lparr>entry_title = ''We're sorry to hear that'',
        entry_message = ''Let us connect you with our product expert for better assistance.'',
        entry_icon = [0xE2, 0x152],
        entry_title_malay = ''Kami sedih mendengarnya'',
        entry_message_malay = ''Mari kami hubungkan anda dengan pakar produk kami untuk bantuan yang lebih baik.''\<rparr>),
      (''skipped'',
       \<lparr>entry_title = ''Session completed'',
        entry_message = ''Thank you for using our IOT Product Support Chatbot. We hope we were able to help you!'',
        entry_icon = [0xE2, 0xAD, 0xEF, 0xB8],
        entry_title_malay = ''Sesi selesai'',
        entry_message_malay = ''Terima kasih kerana menggunakan Chatbot Sokongan Produk IOT kami. Kami berharap kami dapat membantu anda!''\<rparr>)]"

definition fm_get_expert_contact ::
  "product list \<Rightarrow> expert list \<Rightarrow> string option \<Rightarrow> expert option" where
  "fm_get_expert_contact products overall name =
     (case (if truthy name then product_loop products (the name) else None) of
        Some expert_info \<Rightarrow> Some expert_info
      | None \<Rightarrow> overall_expert overall)"

text \<open>\<open>format_expert_contact\<close> chooses between two fixed layouts by the keys the
  expert dictionary has; the rendered text is kept as the layout and the record it
  prints.\<close>

datatype contact_text = OverallContact expert | ProductContact expert

definition format_expert_contact :: "expert \<Rightarrow> contact_text" where
  "format_expert_contact expert_info =
     (if expert_title expert_info \<noteq> None \<and> expert_specialties expert_info \<noteq> None
      then OverallContact expert_info else ProductContact expert_info)"

text \<open>The feedback table of the durable layer: rows (session id, rating, expert
  contacted).  \<open>db_manager.save_feedback\<close> appends a row when the insert succeeds; the
  outcome of the insert is an input.\<close>

type_synonym feedback_row = "string \<times> string \<times> bool"

definition db_save_feedback ::
  "feedback_row list \<Rightarrow> bool db_outcome \<Rightarrow> string \<Rightarrow> string
     \<Rightarrow> bool db_outcome \<times> feedback_row list" where
  "db_save_feedback tbl res session_id satisfaction_rating =
     (case res of
        Returned True \<Rightarrow> (Returned True, tbl @ [(session_id, satisfaction_rating, False)])
      | Returned False \<Rightarrow> (Returned False, tbl)
      | Raised \<Rightarrow> (Raised, tbl))"

definition save_feedback ::
  "session_manager \<Rightarrow> feedback_row list \<Rightarrow> bool db_outcome \<Rightarrow> string \<Rightarrow> string
     \<Rightarrow> bool \<times> session_manager \<times> feedback_row list" where
  "save_feedback s tbl res session_id rating0 =
     (let satisfaction_rating = (if rating0 = ''skipped'' then ''unsatisfied'' else rating0)
      in if satisfaction_rating \<notin> set [''satisfied'', ''unsatisfied'']
         then (False, s, tbl)
         else (case db_save_feedback tbl res session_id satisfaction_rating of
                 (Returned True, tbl') \<Rightarrow>
                   (True,
                    (if satisfaction_rating = ''unsatisfied''
                     then mark_expert_contacted s session_id else s),
                    tbl')
               | (Returned False, tbl') \<Rightarrow> (False, s, tbl')
               | (Raised, tbl') \<Rightarrow> (False, s, tbl')))"

definition get_feedback_template :: "string \<Rightarrow> string \<Rightarrow> template" where
  "get_feedback_template satisfaction_rating lang =
     (case map_of feedback_templates satisfaction_rating of
        Some t \<Rightarrow>
          if lang = ''Malay''
          then \<lparr>title = entry_title_malay t, message = entry_message_malay t,
                icon = entry_icon t\<rparr>
          else \<lparr>title = entry_title t, message = entry_message t, icon = entry_icon t\<rparr>
      | None \<Rightarrow>
          if lang = ''Malay''
          then \<lparr>title = ''Terima kasih atas maklum balas anda!'',
                message = ''Kami menghargai input anda.'', icon = [0xF0, 0x178, 0x201C]\<rparr>
          else \<lparr>title = ''Thank you for your feedback!'',
                message = ''We appreciate your input.'', icon = [0xF0, 0x178, 0x201C]\<rparr>)"

definition get_session_product :: "session_manager \<Rightarrow> string \<Rightarrow> string option" where
  "get_session_product s session_id =
     (case get_session_info s session_id of
        Some info \<Rightarrow> product_involved info
      | None \<Rightarrow> None)"

record response =
  success :: bool
  response_template :: template
  response_expert_contact :: "contact_text option"
  show_expert_contact :: bool
  response_product_name :: "string option"

definition process_feedback_response ::
  "session_manager \<Rightarrow> feedback_row list \<Rightarrow> bool db_outcome \<Rightarrow> string \<Rightarrow> string
     \<Rightarrow> response \<times> session_manager \<times> feedback_row list" where
  "process_feedback_response s tbl res session_id rating0 =
     (let pname = get_session_product s session_id;
          expert_info = fm_get_expert_contact IOT_PRODUCTS OVERALL_EXPERTS pname;
          original_rating = rating0;
          satisfaction_rating = (if rating0 = ''skipped'' then ''unsatisfied'' else rating0)
      in (case save_feedback s tbl res session_id satisfaction_rating of
            (feedback_saved, s', tbl') \<Rightarrow>
              (let session_language =
                     (case get_session_info s' session_id of
                        Some info \<Rightarrow> language info | None \<Rightarrow> ''English'');
                   tmpl = get_feedback_template original_rating session_language
               in (\<lparr>success = feedback_saved, response_template = tmpl,
                    response_expert_contact = map_option format_expert_contact expert_info,
                    show_expert_contact = (expert_info \<noteq> None),
                    response_product_name = pname\<rparr>, s', tbl'))))"

section \<open>Auxiliary predicates\<close>

text \<open>The timeout test of \<open>is_session_active\<close> and \<open>cleanup_expired_sessions\<close>:
  \<open>last_activity < now - timedelta(seconds=SESSION_TIMEOUT)\<close>.\<close>

definition timed_out :: "int \<Rightarrow> session_info \<Rightarrow> bool" where
  "timed_out now info = (last_activity info < now - timedelta_seconds SESSION_TIMEOUT)"

text \<open>The flag of a session is set, or the session is gone together with its flag.\<close>

definition flag_kept :: "session_manager \<Rightarrow> string \<Rightarrow> bool" where
  "flag_kept s sid =
     (map_of (feedback_shown s) sid = Some True
      \<or> (map_of (feedback_shown s) sid = None \<and> map_of (active_sessions s) sid = None))"



section \<open>Example states\<close>

text \<open>A session that has asked three questions, and the same session after the gate
  has fired.\<close>

definition example_session :: session_manager where
  "example_session =
     foldl (sm_step 3) init_session_manager
       [CreateSession ''s1'' (Returned (Some 1)) (Returned True) 10 10
          ''user@example.com'' ''0123'' ''English'',
        IncrementQuestionCount ''s1'', IncrementQuestionCount ''s1'',
        IncrementQuestionCount ''s1'']"

definition example_two_sessions :: session_manager where
  "example_two_sessions =
     sm_step 3 example_session
       (CreateSession ''s2'' (Returned (Some 2)) (Returned True) 3000000000 3000000000
          ''other@example.com'' ''0456'' ''Malay'')"

definition example_flagged :: session_manager where
  "example_flagged = sm_step 3 example_session (ShouldShowFeedback ''s1'')"

section \<open>Proofs: session manager\<close>

lemma dict_get_update:
  "dict_get (AList.update k v d) k' dflt = (if k' = k then v else dict_get d k' dflt)"
  by (simp add: dict_get_def update_conv')

lemma gate_fst:
  "fst (should_show_feedback fi s sid) =
     (dict_get (session_counters s) sid 0 \<ge> fi \<and> \<not> dict_get (feedback_shown s) sid False)"
  by (simp add: should_show_feedback_def Let_def)

lemma gate_flag_after:
  "dict_get (feedback_shown (snd (should_show_feedback fi s sid))) sid' False =
     (if sid' = sid \<and> fst (should_show_feedback fi s sid) then True
      else dict_get (feedback_shown s) sid' False)"
  by (simp add: should_show_feedback_def Let_def dict_get_update)

lemma gate_sets_flag:
  "fst (should_show_feedback fi s sid) \<Longrightarrow>
     map_of (feedback_shown (snd (should_show_feedback fi s sid))) sid = Some True"
  by (simp add: should_show_feedback_def Let_def update_conv' split: if_splits)

lemma incr_flag: "feedback_shown (snd (increment_question_count s sid)) = feedback_shown s"
  by (simp add: increment_question_count_def Let_def split: option.splits)

lemma gate_run_shown:
  "dict_get (feedback_shown s) sid False \<Longrightarrow> (sid, True) \<notin> set (gate_run fi s cs)"
proof (induction cs arbitrary: s)
  case Nil
  then show ?case by simp
next
  case (Cons c cs)
  show ?case
  proof (cases c)
    case (ShowFeedback x)
    have "dict_get (feedback_shown (snd (should_show_feedback fi s x))) sid False"
      using Cons.prems by (simp add: gate_flag_after)
    from Cons.IH[OF this] show ?thesis using ShowFeedback Cons.prems
      by (auto simp: gate_fst)
  next
    case (EndSession x)
    have "dict_get (feedback_shown (snd (should_show_feedback fi s x))) sid False"
      using Cons.prems by (simp add: gate_flag_after)
    from Cons.IH[OF this] show ?thesis using EndSession Cons.prems
      by (auto simp: gate_fst should_end_session_def)
  next
    case (Increment x)
    have "dict_get (feedback_shown (snd (increment_question_count s x))) sid False"
      using Cons.prems by (simp add: incr_flag)
    from Cons.IH[OF this] show ?thesis using Increment by simp
  qed
qed

lemma gate_run_after_true:
  assumes "fst (should_show_feedback fi s sid)"
  shows "(sid, True) \<notin> set (gate_run fi (snd (should_show_feedback fi s sid)) cs)"
proof -
  have "dict_get (feedback_shown (snd (should_show_feedback fi s sid))) sid False"
    using assms by (simp add: gate_flag_after)
  then show ?thesis by (rule gate_run_shown)
qed

lemma gate_run_once:
  "length (filter (\<lambda>r. r = (sid, True)) (gate_run fi s cs)) \<le> 1"
proof (induction cs arbitrary: s)
  case Nil
  then show ?case by simp
next
  case (Cons c cs)
  show ?case
  proof (cases c)
    case (ShowFeedback x)
    show ?thesis
    proof (cases "x = sid \<and> fst (should_show_feedback fi s x)")
      case True
      then have "filter (\<lambda>r. r = (sid, True)) (gate_run fi (snd (should_show_feedback fi s x)) cs) = []"
        using gate_run_after_true[of fi s sid cs] by (auto simp: filter_empty_conv)
      then show ?thesis using ShowFeedback True by simp
    next
      case False
      then show ?thesis using ShowFeedback Cons.IH[of "snd (should_show_feedback fi s x)"] by auto
    qed
  next
    case (EndSession x)
    show ?thesis
    proof (cases "x = sid \<and> fst (should_show_feedback fi s x)")
      case True
      then have "filter (\<lambda>r. r = (sid, True)) (gate_run fi (snd (should_show_feedback fi s x)) cs) = []"
        using gate_run_after_true[of fi s sid cs] by (auto simp: filter_empty_conv)
      then show ?thesis using EndSession True by (simp add: should_end_session_def)
    next
      case False
      then show ?thesis using EndSession Cons.IH[of "snd (should_show_feedback fi s x)"]
        by (auto simp: should_end_session_def)
    qed
  next
    case (Increment x)
    then show ?thesis using Cons.IH by simp
  qed
qed

lemma example_session_eval:
  "example_session =
     \<lparr>active_sessions = [(''s1'', \<lparr>email = ''user@example.com'', phone = ''0123'',
          language = ''English'', created_at = 10, last_activity = 10, question_count = 3,
          product_involved = None, expert_contacted = False\<rparr>)],
      session_counters = [(''s1'', 3)], feedback_shown = [(''s1'', False)]\<rparr>"
  by (simp add: example_session_def init_session_manager_def create_session_def
      increment_question_count_def dict_get_def Let_def)

lemma example_flagged_eval:
  "example_flagged = example_session\<lparr>feedback_shown := [(''s1'', True)]\<rparr>"
  by (simp add: example_flagged_def example_session_eval should_show_feedback_def dict_get_def Let_def)

text \<open>
  C1.  The feedback gate returns true exactly when the question count has reached the
  budget and the flag is still unset; that call sets the flag, no later gate call for
  the session returns true, and along any sequence of gate calls and increments at most
  one gate call for a session returns true.
\<close>

theorem feedback_gate_fires_at_most_once:
  "fst (should_show_feedback fi s sid) =
     (dict_get (session_counters s) sid 0 \<ge> fi \<and> \<not> dict_get (feedback_shown s) sid False)
   \<and> should_end_session fi s sid = should_show_feedback fi s sid
   \<and> (fst (should_show_feedback fi s sid) \<longrightarrow>
        map_of (feedback_shown (snd (should_show_feedback fi s sid))) sid = Some True
        \<and> (sid, True) \<notin> set (gate_run fi (snd (should_show_feedback fi s sid)) cs))
   \<and> length (filter (\<lambda>r. r = (sid, True)) (gate_run fi s cs)) \<le> 1"
  using gate_fst[of fi s sid] gate_sets_flag[of fi s sid] gate_run_after_true[of fi s sid cs]
    gate_run_once[of sid fi s cs]
  by (simp add: should_end_session_def)

theorem feedback_gate_fires_at_most_once_witness:
  "fst (should_show_feedback 3 example_session ''s1'')
   \<and> map_of (feedback_shown (snd (should_show_feedback 3 example_session ''s1''))) ''s1'' = Some True
   \<and> (''s1'', True) \<notin> set (gate_run 3 (snd (should_show_feedback 3 example_session ''s1''))
          [ShowFeedback ''s1'', Increment ''s1'', EndSession ''s1''])
   \<and> gate_run 3 example_session
        [ShowFeedback ''s1'', Increment ''s1'', EndSession ''s1'', ShowFeedback ''s1'']
      = [(''s1'', True), (''s1'', False), (''s1'', False)]"
  using feedback_gate_fires_at_most_once[of 3 example_session "''s1''"
      "[ShowFeedback ''s1'', Increment ''s1'', EndSession ''s1'']"]
  by (simp add: example_session_eval should_show_feedback_def should_end_session_def
      increment_question_count_def dict_get_def Let_def)

lemma dict_in_iff: "dict_in k d = (map_of d k \<noteq> None)"
  by (simp add: dict_in_def)

lemma end_session_active:
  "map_of (active_sessions (end_session s sid)) k =
     (if k = sid then None else map_of (active_sessions s) k)"
  by (auto simp: end_session_def Let_def dict_in_def delete_conv')

lemma end_session_counters:
  "map_of (session_counters (end_session s sid)) k =
     (if k = sid \<and> dict_in sid (active_sessions s) then None
      else map_of (session_counters s) k)"
  by (auto simp: end_session_def Let_def dict_in_def delete_conv')

lemma end_session_flags:
  "map_of (feedback_shown (end_session s sid)) k =
     (if k = sid \<and> dict_in sid (active_sessions s) then None
      else map_of (feedback_shown s) k)"
  by (auto simp: end_session_def Let_def dict_in_def delete_conv')

lemma end_session_absent:
  "map_of (active_sessions s) sid = None \<Longrightarrow> end_session s sid = s"
  by (simp add: end_session_def dict_in_def)

lemma update_session_activity_absent:
  "map_of (active_sessions s) sid = None \<Longrightarrow> update_session_activity s now sid = s"
  by (simp add: update_session_activity_def)

lemma incr_active_absent:
  "map_of (active_sessions s) sid = None \<Longrightarrow>
     active_sessions (snd (increment_question_count s sid)) = active_sessions s"
  by (simp add: increment_question_count_def Let_def)

text \<open>
  C2 (as amended).  Once \<open>end_session\<close> has removed a session, its record, counter
  and flag are gone; \<open>update_session_activity\<close> for that id changes nothing, and
  \<open>increment_question_count\<close> does not bring the record or the flag back: the
  session stays not found.
\<close>

theorem ended_session_not_revived:
  assumes "dict_in sid (active_sessions s)"
  shows "get_session_info (end_session s sid) sid = None
     \<and> map_of (session_counters (end_session s sid)) sid = None
     \<and> map_of (feedback_shown (end_session s sid)) sid = None
     \<and> update_session_activity (end_session s sid) now sid = end_session s sid
     \<and> get_session_info (snd (increment_question_count (end_session s sid) sid)) sid = None
     \<and> active_sessions (snd (increment_question_count (end_session s sid) sid))
         = active_sessions (end_session s sid)
     \<and> feedback_shown (snd (increment_question_count (end_session s sid) sid))
         = feedback_shown (end_session s sid)"
proof -
  have a: "map_of (active_sessions (end_session s sid)) sid = None"
    by (simp add: end_session_active)
  have b: "active_sessions (snd (increment_question_count (end_session s sid) sid))
         = active_sessions (end_session s sid)"
    using a by (rule incr_active_absent)
  show ?thesis
    using assms a b
    by (simp add: get_session_info_def end_session_counters end_session_flags
        update_session_activity_absent incr_flag)
qed

theorem ended_session_not_revived_witness:
  "dict_in ''s1'' (active_sessions example_session)
   \<and> get_session_info (end_session example_session ''s1'') ''s1'' = None
   \<and> update_session_activity (end_session example_session ''s1'') 99 ''s1''
       = end_session example_session ''s1''
   \<and> get_session_info (snd (increment_question_count (end_session example_session ''s1'') ''s1'')) ''s1'' = None"
  using ended_session_not_revived[of "''s1''" example_session 99]
  by (simp add: example_session_eval dict_in_def)

text \<open>
  C2 as stated fails: on an ended id \<open>increment_question_count\<close> is not rejected; it
  counts from the default 0, returns 1 and stores a fresh counter entry.
\<close>

theorem increment_after_end_counterexample:
  "dict_in ''s1'' (active_sessions example_session)
   \<and> get_session_info (end_session example_session ''s1'') ''s1'' = None
   \<and> fst (increment_question_count (end_session example_session ''s1'') ''s1'') = 1
   \<and> map_of (session_counters (snd (increment_question_count (end_session example_session ''s1'') ''s1''))) ''s1''
       = Some 1"
  by (simp add: example_session_eval dict_in_def end_session_def get_session_info_def
      increment_question_count_def dict_get_def Let_def)

lemma end_session_flag_kept: "flag_kept s sid \<Longrightarrow> flag_kept (end_session s x) sid"
  by (auto simp: flag_kept_def end_session_flags end_session_active dict_in_def)

lemma fold_end_session_flag_kept:
  "flag_kept s sid \<Longrightarrow> flag_kept (fold (\<lambda>x s'. end_session s' x) xs s) sid"
  by (induction xs arbitrary: s) (auto intro: end_session_flag_kept)

lemma update_session_activity_flags:
  "feedback_shown (update_session_activity s now x) = feedback_shown s"
  by (simp add: update_session_activity_def split: option.splits)

lemma update_session_product_flags:
  "feedback_shown (update_session_product s x p) = feedback_shown s"
  by (simp add: update_session_product_def split: option.splits)

lemma mark_expert_contacted_flags:
  "feedback_shown (mark_expert_contacted s x) = feedback_shown s"
  by (simp add: mark_expert_contacted_def split: option.splits)

lemma gate_flag_true:
  "map_of (feedback_shown s) sid = Some True \<Longrightarrow>
     map_of (feedback_shown (snd (should_show_feedback fi s x))) sid = Some True"
  by (simp add: should_show_feedback_def Let_def update_conv')

lemma create_session_flag_other:
  "x \<noteq> sid \<Longrightarrow>
     map_of (feedback_shown (snd (create_session s x u c t1 t2 em ph lang))) sid
       = map_of (feedback_shown s) sid"
  by (simp add: create_session_def update_conv' split: db_outcome.splits option.splits bool.splits)

lemma add_message_flags:
  "feedback_shown (snd (add_message_to_history s r now x mt content)) = feedback_shown s"
  by (simp add: add_message_to_history_def Let_def incr_flag update_session_activity_flags
      split: db_outcome.splits bool.splits)

lemma is_session_active_flag_kept:
  "flag_kept s sid \<Longrightarrow> flag_kept (snd (is_session_active s now x)) sid"
  by (auto simp: is_session_active_def Let_def intro: end_session_flag_kept split: option.splits)

text \<open>
  C3 (as amended).  Once the flag of a session is true, every operation of the session
  manager other than \<open>reset_feedback_flag\<close> for that session (and creating a session
  under the very same id) leaves it true, unless the operation ends the session, in
  which case record and flag are removed together.
\<close>

theorem feedback_flag_kept_except_reset:
  assumes "map_of (feedback_shown s) sid = Some True"
    and "op \<noteq> ResetFeedbackFlag sid"
    and "\<forall>u c t1 t2 em ph lang. op \<noteq> CreateSession sid u c t1 t2 em ph lang"
  shows "map_of (feedback_shown (sm_step fi s op)) sid = Some True
     \<or> (map_of (feedback_shown (sm_step fi s op)) sid = None
        \<and> map_of (active_sessions (sm_step fi s op)) sid = None)"
proof -
  have k: "flag_kept s sid" using assms(1) by (simp add: flag_kept_def)
  have "flag_kept (sm_step fi s op) sid"
  proof (cases op)
    case (CreateSession x u c t1 t2 em ph lang)
    then have "x \<noteq> sid" using assms(3) by auto
    then show ?thesis using CreateSession assms(1)
      by (simp add: flag_kept_def create_session_flag_other)
  next
    case (UpdateSessionActivity now x)
    then show ?thesis using assms(1) by (simp add: flag_kept_def update_session_activity_flags)
  next
    case (IncrementQuestionCount x)
    then show ?thesis using assms(1) by (simp add: flag_kept_def incr_flag)
  next
    case (ShouldShowFeedback x)
    then show ?thesis using assms(1) by (simp add: flag_kept_def gate_flag_true)
  next
    case (ShouldEndSession x)
    then show ?thesis using assms(1)
      by (simp add: flag_kept_def gate_flag_true should_end_session_def)
  next
    case (ForceEndSession x)
    then show ?thesis using k by (simp add: force_end_session_def end_session_flag_kept)
  next
    case (AddMessageToHistory r now x mt content)
    then show ?thesis using assms(1) by (simp add: flag_kept_def add_message_flags)
  next
    case (UpdateSessionProduct x p)
    then show ?thesis using assms(1) by (simp add: flag_kept_def update_session_product_flags)
  next
    case (MarkExpertContacted x)
    then show ?thesis using assms(1) by (simp add: flag_kept_def mark_expert_contacted_flags)
  next
    case (IsSessionActive now x)
    then show ?thesis using k by (simp add: is_session_active_flag_kept)
  next
    case (EndSessionOp x)
    then show ?thesis using k by (simp add: end_session_flag_kept)
  next
    case (ResetFeedbackFlag x)
    then have "x \<noteq> sid" using assms(2) by auto
    then show ?thesis using ResetFeedbackFlag assms(1)
      by (simp add: flag_kept_def reset_feedback_flag_def update_conv')
  next
    case (CleanupExpiredSessions now)
    then show ?thesis using k
      by (simp add: cleanup_expired_sessions_def fold_end_session_flag_kept)
  qed
  then show ?thesis by (simp add: flag_kept_def)
qed

theorem feedback_flag_kept_except_reset_witness:
  "map_of (feedback_shown example_flagged) ''s1'' = Some True
   \<and> IncrementQuestionCount ''s1'' \<noteq> ResetFeedbackFlag ''s1''
   \<and> (\<forall>u c t1 t2 em ph lang.
         IncrementQuestionCount ''s1'' \<noteq> CreateSession ''s1'' u c t1 t2 em ph lang)
   \<and> map_of (feedback_shown (sm_step 3 example_flagged (IncrementQuestionCount ''s1''))) ''s1''
       = Some True"
  using feedback_flag_kept_except_reset[of example_flagged "''s1''" "IncrementQuestionCount ''s1''" 3]
  by (simp add: example_flagged_eval example_session_eval incr_flag)

text \<open>
  C3 as stated fails: \<open>reset_feedback_flag\<close>, an operation the session manager exposes,
  sets the flag of a live session back to false.
\<close>

theorem reset_feedback_flag_counterexample:
  "map_of (active_sessions example_flagged) ''s1'' \<noteq> None
   \<and> map_of (feedback_shown example_flagged) ''s1'' = Some True
   \<and> map_of (active_sessions (sm_step 3 example_flagged (ResetFeedbackFlag ''s1''))) ''s1'' \<noteq> None
   \<and> map_of (feedback_shown (sm_step 3 example_flagged (ResetFeedbackFlag ''s1''))) ''s1''
       = Some False"
  by (simp add: example_flagged_eval example_session_eval reset_feedback_flag_def dict_in_def)

lemma fold_end_session_active:
  "map_of (active_sessions (fold (\<lambda>x s'. end_session s' x) xs s)) k =
     (if k \<in> set xs then None else map_of (active_sessions s) k)"
  by (induction xs arbitrary: s) (auto simp: end_session_active)

lemma fold_end_session_counters:
  "map_of (session_counters (fold (\<lambda>x s'. end_session s' x) xs s)) k =
     (if k \<in> set xs \<and> dict_in k (active_sessions s) then None
      else map_of (session_counters s) k)"
proof (induction xs arbitrary: s)
  case Nil
  then show ?case by simp
next
  case (Cons x xs)
  show ?case
    by (auto simp: Cons.IH end_session_counters end_session_active dict_in_def)
qed

lemma fold_end_session_flags:
  "map_of (feedback_shown (fold (\<lambda>x s'. end_session s' x) xs s)) k =
     (if k \<in> set xs \<and> dict_in k (active_sessions s) then None
      else map_of (feedback_shown s) k)"
proof (induction xs arbitrary: s)
  case Nil
  then show ?case by simp
next
  case (Cons x xs)
  show ?case
    by (auto simp: Cons.IH end_session_flags end_session_active dict_in_def)
qed

lemma expired_sessions_set:
  assumes "distinct (map fst (active_sessions s))"
  shows "k \<in> set (expired_sessions s now) \<longleftrightarrow>
     (\<exists>info. map_of (active_sessions s) k = Some info \<and> timed_out now info)"
proof -
  have "k \<in> set (expired_sessions s now) \<longleftrightarrow>
      (\<exists>info. (k, info) \<in> set (active_sessions s) \<and> timed_out now info)"
    by (force simp: expired_sessions_def timed_out_def)
  then show ?thesis using assms by simp
qed

lemma end_session_distinct:
  "distinct (map fst (active_sessions s)) \<Longrightarrow>
     distinct (map fst (active_sessions (end_session s x)))"
  by (simp add: end_session_def Let_def distinct_delete)

lemma fold_end_session_distinct:
  "distinct (map fst (active_sessions s)) \<Longrightarrow>
     distinct (map fst (active_sessions (fold (\<lambda>x s'. end_session s' x) xs s)))"
  by (induction xs arbitrary: s) (auto intro: end_session_distinct)

lemma sm_step_distinct:
  assumes "distinct (map fst (active_sessions s))"
  shows "distinct (map fst (active_sessions (sm_step fi s op)))"
proof (cases op)
  case (CreateSession x u c t1 t2 em ph lang)
  then show ?thesis using assms
    by (simp add: create_session_def distinct_update
        split: db_outcome.splits option.splits bool.splits)
next
  case (UpdateSessionActivity now x)
  then show ?thesis using assms
    by (simp add: update_session_activity_def distinct_update split: option.splits)
next
  case (IncrementQuestionCount x)
  then show ?thesis using assms
    by (simp add: increment_question_count_def Let_def distinct_update split: option.splits)
next
  case (ShouldShowFeedback x)
  then show ?thesis using assms by (simp add: should_show_feedback_def Let_def)
next
  case (ShouldEndSession x)
  then show ?thesis using assms
    by (simp add: should_end_session_def should_show_feedback_def Let_def)
next
  case (ForceEndSession x)
  then show ?thesis using assms by (simp add: force_end_session_def end_session_distinct)
next
  case (AddMessageToHistory r now x mt content)
  then show ?thesis using assms
    by (simp add: add_message_to_history_def update_session_activity_def
        increment_question_count_def Let_def distinct_update
        split: db_outcome.splits bool.splits option.splits)
next
  case (UpdateSessionProduct x p)
  then show ?thesis using assms
    by (simp add: update_session_product_def distinct_update split: option.splits)
next
  case (MarkExpertContacted x)
  then show ?thesis using assms
    by (simp add: mark_expert_contacted_def distinct_update split: option.splits)
next
  case (IsSessionActive now x)
  then show ?thesis using assms
    by (simp add: is_session_active_def Let_def end_session_distinct split: option.splits)
next
  case (EndSessionOp x)
  then show ?thesis using assms by (simp add: end_session_distinct)
next
  case (ResetFeedbackFlag x)
  then show ?thesis using assms by (simp add: reset_feedback_flag_def)
next
  case (CleanupExpiredSessions now)
  then show ?thesis using assms
    by (simp add: cleanup_expired_sessions_def fold_end_session_distinct)
qed

lemma reachable_distinct:
  "distinct (map fst (active_sessions (foldl (sm_step fi) init_session_manager ops)))"
proof (induction ops rule: rev_induct)
  case Nil
  then show ?case by (simp add: init_session_manager_def)
next
  case (snoc op ops)
  then show ?case by (simp add: sm_step_distinct)
qed

text \<open>
  C6.  A live session whose last activity is older than the timeout makes
  \<open>is_session_active\<close> return false and evicts it, so that the next lookup finds
  nothing; \<open>cleanup_expired_sessions\<close> removes exactly the records (with their counter
  and flag) whose last activity is older than the timeout and leaves every other entry
  as it was.
\<close>

theorem timeout_eviction:
  assumes "distinct (map fst (active_sessions s))"
  shows "(\<forall>info. map_of (active_sessions s) sid = Some info \<and> timed_out now info \<longrightarrow>
            fst (is_session_active s now sid) = False
            \<and> get_session_info (snd (is_session_active s now sid)) sid = None)
     \<and> map_of (active_sessions (cleanup_expired_sessions s now)) sid =
          (case map_of (active_sessions s) sid of
             None \<Rightarrow> None
           | Some info \<Rightarrow> if timed_out now info then None else Some info)
     \<and> map_of (session_counters (cleanup_expired_sessions s now)) sid =
          (case map_of (active_sessions s) sid of
             None \<Rightarrow> map_of (session_counters s) sid
           | Some info \<Rightarrow> if timed_out now info then None else map_of (session_counters s) sid)
     \<and> map_of (feedback_shown (cleanup_expired_sessions s now)) sid =
          (case map_of (active_sessions s) sid of
             None \<Rightarrow> map_of (feedback_shown s) sid
           | Some info \<Rightarrow> if timed_out now info then None else map_of (feedback_shown s) sid)"
proof -
  have a: "\<forall>info. map_of (active_sessions s) sid = Some info \<and> timed_out now info \<longrightarrow>
            fst (is_session_active s now sid) = False
            \<and> get_session_info (snd (is_session_active s now sid)) sid = None"
    by (auto simp: is_session_active_def timed_out_def Let_def get_session_info_def
        end_session_active)
  note e = expired_sessions_set[OF assms, of sid now]
  have b: "map_of (active_sessions (cleanup_expired_sessions s now)) sid =
          (case map_of (active_sessions s) sid of
             None \<Rightarrow> None
           | Some info \<Rightarrow> if timed_out now info then None else Some info)"
    using e by (auto simp: cleanup_expired_sessions_def fold_end_session_active split: option.splits)
  have c: "map_of (session_counters (cleanup_expired_sessions s now)) sid =
          (case map_of (active_sessions s) sid of
             None \<Rightarrow> map_of (session_counters s) sid
           | Some info \<Rightarrow> if timed_out now info then None else map_of (session_counters s) sid)"
    using e by (auto simp: cleanup_expired_sessions_def fold_end_session_counters dict_in_def
        split: option.splits)
  have d: "map_of (feedback_shown (cleanup_expired_sessions s now)) sid =
          (case map_of (active_sessions s) sid of
             None \<Rightarrow> map_of (feedback_shown s) sid
           | Some info \<Rightarrow> if timed_out now info then None else map_of (feedback_shown s) sid)"
    using e by (auto simp: cleanup_expired_sessions_def fold_end_session_flags dict_in_def
        split: option.splits)
  from a b c d show ?thesis by blast
qed

lemma example_two_sessions_eval:
  "example_two_sessions =
     \<lparr>active_sessions =
        [(''s1'', \<lparr>email = ''user@example.com'', phone = ''0123'',
          language = ''English'', created_at = 10, last_activity = 10, question_count = 3,
          product_involved = None, expert_contacted = False\<rparr>),
         (''s2'', \<lparr>email = ''other@example.com'', phone = ''0456'',
          language = ''Malay'', created_at = 3000000000, last_activity = 3000000000,
          question_count = 0, product_involved = None, expert_contacted = False\<rparr>)],
      session_counters = [(''s1'', 3), (''s2'', 0)],
      feedback_shown = [(''s1'', False), (''s2'', False)]\<rparr>"
  by (simp add: example_two_sessions_def example_session_eval create_session_def)

theorem timeout_eviction_witness:
  "distinct (map fst (active_sessions example_two_sessions))
   \<and> timed_out 3600000011 (the (map_of (active_sessions example_two_sessions) ''s1''))
   \<and> fst (is_session_active example_two_sessions 3600000011 ''s1'') = False
   \<and> get_session_info (snd (is_session_active example_two_sessions 3600000011 ''s1'')) ''s1'' = None
   \<and> map_of (active_sessions (cleanup_expired_sessions example_two_sessions 3600000011)) ''s1'' = None
   \<and> map_of (session_counters (cleanup_expired_sessions example_two_sessions 3600000011)) ''s1'' = None
   \<and> map_of (feedback_shown (cleanup_expired_sessions example_two_sessions 3600000011)) ''s1'' = None
   \<and> map_of (active_sessions (cleanup_expired_sessions example_two_sessions 3600000011)) ''s2''
       = map_of (active_sessions example_two_sessions) ''s2''
   \<and> map_of (session_counters (cleanup_expired_sessions example_two_sessions 3600000011)) ''s2''
       = Some 0"
  using timeout_eviction[of example_two_sessions "''s1''" 3600000011]
    timeout_eviction[of example_two_sessions "''s2''" 3600000011]
  by (simp add: example_two_sessions_eval timed_out_def SESSION_TIMEOUT_def timedelta_seconds_def)

text \<open>
  C7.  When the durable layer does not resolve the owner (it raises, or returns nothing
  or 0) or does not create the session row (it raises or returns false),
  \<open>create_session\<close> returns no session id and leaves the three dictionaries as they
  were, so a freshly generated id has no record, no counter and no flag.
\<close>

theorem create_session_failure_no_state:
  assumes "user_id_res \<in> {Raised, Returned None, Returned (Some 0)}
           \<or> created_res \<in> {Raised, Returned False}"
  shows "create_session s sid user_id_res created_res t1 t2 em ph lang = (None, s)
     \<and> (map_of (active_sessions s) sid = None \<and> map_of (session_counters s) sid = None
          \<and> map_of (feedback_shown s) sid = None \<longrightarrow>
        map_of (active_sessions (snd (create_session s sid user_id_res created_res t1 t2 em ph lang))) sid = None
        \<and> map_of (session_counters (snd (create_session s sid user_id_res created_res t1 t2 em ph lang))) sid = None
        \<and> map_of (feedback_shown (snd (create_session s sid user_id_res created_res t1 t2 em ph lang))) sid = None)"
proof -
  have "create_session s sid user_id_res created_res t1 t2 em ph lang = (None, s)"
    using assms
    by (auto simp: create_session_def split: db_outcome.splits option.splits bool.splits)
  then show ?thesis by simp
qed

theorem create_session_failure_no_state_witness:
  "(Returned (Some 7) \<in> {Raised, Returned None, Returned (Some (0::int))}
      \<or> Returned False \<in> {Raised, Returned False})
   \<and> map_of (active_sessions example_session) ''s9'' = None
   \<and> map_of (session_counters example_session) ''s9'' = None
   \<and> map_of (feedback_shown example_session) ''s9'' = None
   \<and> create_session example_session ''s9'' (Returned (Some 7)) (Returned False) 20 21
        ''new@example.com'' ''0789'' ''English'' = (None, example_session)
   \<and> map_of (active_sessions (snd (create_session example_session ''s9'' (Returned (Some 7))
        (Returned False) 20 21 ''new@example.com'' ''0789'' ''English''))) ''s9'' = None"
  using create_session_failure_no_state[of "Returned (Some 7)" "Returned False" example_session
      "''s9''" 20 21 "''new@example.com''" "''0789''" "''English''"]
  by (simp add: example_session_eval)

section \<open>Proofs: product router\<close>

lemma startswith_iff: "startswith s sub \<longleftrightarrow> (\<exists>post. s = sub @ post)"
  by (induction s sub rule: startswith.induct) auto

lemma str_contains_iff: "str_contains s sub \<longleftrightarrow> (\<exists>pre post. s = pre @ sub @ post)"
proof (induction s)
  case Nil
  then show ?case by auto
next
  case (Cons c cs)
  show ?case
  proof
    assume "str_contains (c # cs) sub"
    then consider "startswith (c # cs) sub" | "str_contains cs sub" by auto
    then show "\<exists>pre post. c # cs = pre @ sub @ post"
    proof cases
      case 1
      then obtain post where "c # cs = sub @ post" by (auto simp: startswith_iff)
      then have "c # cs = [] @ sub @ post" by simp
      then show ?thesis by blast
    next
      case 2
      then obtain pre post where "cs = pre @ sub @ post" using Cons.IH by auto
      then have "c # cs = (c # pre) @ sub @ post" by simp
      then show ?thesis by blast
    qed
  next
    assume "\<exists>pre post. c # cs = pre @ sub @ post"
    then obtain pre post where e: "c # cs = pre @ sub @ post" by auto
    show "str_contains (c # cs) sub"
    proof (cases pre)
      case Nil
      then have "startswith (c # cs) sub" using e by (auto simp: startswith_iff)
      then show ?thesis by simp
    next
      case (Cons p ps)
      then have "cs = ps @ sub @ post" using e by simp
      then have "str_contains cs sub" using Cons.IH by blast
      then show ?thesis by simp
    qed
  qed
qed









section \<open>Proofs: routing by score\<close>










section \<open>Proofs: feedback manager\<close>

lemma product_loop_find:
  "product_loop products name =
     map_option product_expert (find (\<lambda>p. product_name p = name) products)"
  by (induction products) auto

lemma mark_expert_contacted_info:
  "get_session_info (mark_expert_contacted s sid) k =
     map_option (\<lambda>info. if k = sid then info\<lparr>expert_contacted := True\<rparr> else info)
       (get_session_info s k)"
  by (auto simp: mark_expert_contacted_def get_session_info_def update_conv'
      split: option.splits)

lemma mark_expert_contacted_language:
  "(case get_session_info (mark_expert_contacted s sid) k of
      Some info \<Rightarrow> language info | None \<Rightarrow> dflt)
   = (case get_session_info s k of Some info \<Rightarrow> language info | None \<Rightarrow> dflt)"
  by (simp add: mark_expert_contacted_info split: option.splits)

lemma save_feedback_skipped:
  "save_feedback s tbl res sid ''skipped'' = save_feedback s tbl res sid ''unsatisfied''"
  by (simp add: save_feedback_def)

lemma save_feedback_unsatisfied:
  "save_feedback s tbl res sid ''unsatisfied'' =
     (if res = Returned True
      then (True, mark_expert_contacted s sid, tbl @ [(sid, ''unsatisfied'', False)])
      else (False, s, tbl))"
proof (cases res)
  case (Returned b)
  then show ?thesis by (cases b) (simp_all add: save_feedback_def db_save_feedback_def)
next
  case Raised
  then show ?thesis by (simp add: save_feedback_def db_save_feedback_def)
qed

lemma save_feedback_invalid:
  "rating \<notin> {''satisfied'', ''unsatisfied'', ''skipped''} \<Longrightarrow>
     save_feedback s tbl res sid rating = (False, s, tbl)"
  by (simp add: save_feedback_def)

lemma skipped_template:
  "get_feedback_template ''skipped'' lang =
     (if lang = ''Malay''
      then \<lparr>title = ''Sesi selesai'',
            message = ''Terima kasih kerana menggunakan Chatbot Sokongan Produk IOT kami. Kami berharap kami dapat membantu anda!'',
            icon = [0xE2, 0xAD, 0xEF, 0xB8]\<rparr>
      else \<lparr>title = ''Session completed'',
            message = ''Thank you for using our IOT Product Support Chatbot. We hope we were able to help you!'',
            icon = [0xE2, 0xAD, 0xEF, 0xB8]\<rparr>)"
  by (simp add: get_feedback_template_def feedback_templates_def)

lemma process_skipped:
  "process_feedback_response s tbl res sid ''skipped'' =
     (\<lparr>success = (res = Returned True),
       response_template = get_feedback_template ''skipped''
          (case get_session_info s sid of Some info \<Rightarrow> language info | None \<Rightarrow> ''English''),
       response_expert_contact =
          map_option format_expert_contact
            (fm_get_expert_contact IOT_PRODUCTS OVERALL_EXPERTS (get_session_product s sid)),
       show_expert_contact =
          (fm_get_expert_contact IOT_PRODUCTS OVERALL_EXPERTS (get_session_product s sid) \<noteq> None),
       response_product_name = get_session_product s sid\<rparr>,
      (if res = Returned True then mark_expert_contacted s sid else s),
      (if res = Returned True then tbl @ [(sid, ''unsatisfied'', False)] else tbl))"
  by (simp add: process_feedback_response_def save_feedback_unsatisfied Let_def
      mark_expert_contacted_language)

lemma process_invalid:
  assumes "rating \<notin> {''satisfied'', ''unsatisfied'', ''skipped''}"
  shows "success (fst (process_feedback_response s tbl res sid rating)) = False
     \<and> snd (process_feedback_response s tbl res sid rating) = (s, tbl)"
proof -
  have "rating \<noteq> ''skipped''" using assms by auto
  then show ?thesis
    using save_feedback_invalid[OF assms, of s tbl res sid]
    by (simp add: process_feedback_response_def Let_def)
qed

text \<open>
  C8.  The rating \<open>skipped\<close> is written to the feedback table as \<open>unsatisfied\<close> (when
  the insert succeeds; otherwise nothing is written), while the template returned for
  display is the \<open>skipped\<close> one in the session's language; a rating outside satisfied,
  unsatisfied and skipped is rejected, with the table and the sessions unchanged.
\<close>

theorem skipped_stored_as_unsatisfied:
  "snd (snd (process_feedback_response s tbl res sid ''skipped'')) =
     (if res = Returned True then tbl @ [(sid, ''unsatisfied'', False)] else tbl)
   \<and> success (fst (process_feedback_response s tbl res sid ''skipped'')) = (res = Returned True)
   \<and> response_template (fst (process_feedback_response s tbl res sid ''skipped'')) =
       (if (case get_session_info s sid of Some info \<Rightarrow> language info | None \<Rightarrow> ''English'')
             = ''Malay''
        then \<lparr>title = ''Sesi selesai'',
              message = ''Terima kasih kerana menggunakan Chatbot Sokongan Produk IOT kami. Kami berharap kami dapat membantu anda!'',
              icon = [0xE2, 0xAD, 0xEF, 0xB8]\<rparr>
        else \<lparr>title = ''Session completed'',
              message = ''Thank you for using our IOT Product Support Chatbot. We hope we were able to help you!'',
              icon = [0xE2, 0xAD, 0xEF, 0xB8]\<rparr>)
   \<and> response_template (fst (process_feedback_response s tbl res sid ''skipped'')) =
       (let t = the (map_of feedback_templates ''skipped'')
        in if (case get_session_info s sid of Some info \<Rightarrow> language info | None \<Rightarrow> ''English'')
                = ''Malay''
           then \<lparr>title = entry_title_malay t, message = entry_message_malay t, icon = entry_icon t\<rparr>
           else \<lparr>title = entry_title t, message = entry_message t, icon = entry_icon t\<rparr>)
   \<and> save_feedback s tbl res sid ''skipped'' =
       (if res = Returned True
        then (True, mark_expert_contacted s sid, tbl @ [(sid, ''unsatisfied'', False)])
        else (False, s, tbl))
   \<and> (rating \<notin> {''satisfied'', ''unsatisfied'', ''skipped''} \<longrightarrow>
        save_feedback s tbl res sid rating = (False, s, tbl)
        \<and> success (fst (process_feedback_response s tbl res sid rating)) = False
        \<and> snd (process_feedback_response s tbl res sid rating) = (s, tbl))"
proof -
  have a: "response_template (fst (process_feedback_response s tbl res sid ''skipped'')) =
       (let t = the (map_of feedback_templates ''skipped'')
        in if (case get_session_info s sid of Some info \<Rightarrow> language info | None \<Rightarrow> ''English'')
                = ''Malay''
           then \<lparr>title = entry_title_malay t, message = entry_message_malay t, icon = entry_icon t\<rparr>
           else \<lparr>title = entry_title t, message = entry_message t, icon = entry_icon t\<rparr>)"
    by (simp add: process_skipped get_feedback_template_def feedback_templates_def)
  have b: "rating \<notin> {''satisfied'', ''unsatisfied'', ''skipped''} \<longrightarrow>
        save_feedback s tbl res sid rating = (False, s, tbl)
        \<and> success (fst (process_feedback_response s tbl res sid rating)) = False
        \<and> snd (process_feedback_response s tbl res sid rating) = (s, tbl)"
    using save_feedback_invalid[of rating s tbl res sid] process_invalid[of rating s tbl res sid]
    by blast
  have c: "save_feedback s tbl res sid ''skipped'' =
       (if res = Returned True
        then (True, mark_expert_contacted s sid, tbl @ [(sid, ''unsatisfied'', False)])
        else (False, s, tbl))"
    by (simp only: save_feedback_skipped save_feedback_unsatisfied)
  have d: "snd (snd (process_feedback_response s tbl res sid ''skipped'')) =
     (if res = Returned True then tbl @ [(sid, ''unsatisfied'', False)] else tbl)"
    by (simp add: process_skipped)
  have e: "success (fst (process_feedback_response s tbl res sid ''skipped'')) = (res = Returned True)"
    by (simp add: process_skipped)
  have f: "response_template (fst (process_feedback_response s tbl res sid ''skipped'')) =
       (if (case get_session_info s sid of Some info \<Rightarrow> language info | None \<Rightarrow> ''English'')
             = ''Malay''
        then \<lparr>title = ''Sesi selesai'',
              message = ''Terima kasih kerana menggunakan Chatbot Sokongan Produk IOT kami. Kami berharap kami dapat membantu anda!'',
              icon = [0xE2, 0xAD, 0xEF, 0xB8]\<rparr>
        else \<lparr>title = ''Session completed'',
              message = ''Thank you for using our IOT Product Support Chatbot. We hope we were able to help you!'',
              icon = [0xE2, 0xAD, 0xEF, 0xB8]\<rparr>)"
    by (simp only: process_skipped fst_conv response.simps skipped_template)
  from a b c d e f show ?thesis by blast
qed

theorem skipped_stored_as_unsatisfied_witness:
  "''great'' \<notin> {''satisfied'', ''unsatisfied'', ''skipped''}
   \<and> snd (snd (process_feedback_response example_two_sessions [] (Returned True) ''s2'' ''skipped''))
       = [(''s2'', ''unsatisfied'', False)]
   \<and> title (response_template (fst (process_feedback_response example_two_sessions []
         (Returned True) ''s2'' ''skipped''))) = ''Sesi selesai''
   \<and> success (fst (process_feedback_response example_two_sessions [] (Returned True) ''s2'' ''great''))
       = False
   \<and> snd (process_feedback_response example_two_sessions [] (Returned True) ''s2'' ''great'')
       = (example_two_sessions, [])"
  using skipped_stored_as_unsatisfied[of example_two_sessions "[]" "Returned True" "''s2''" "''great''"]
  by (simp add: example_two_sessions_eval get_session_info_def)

text \<open>
  C9.  \<open>get_expert_contact\<close> (in the feedback manager and in the router) returns the
  expert of the first configured product with the given name, and the first overall
  expert when no name is given or no product has it; with at least one overall expert
  configured it always returns an expert.
\<close>

theorem expert_contact_fallback:
  assumes "[] \<notin> set (map product_name products)"
  shows "fm_get_expert_contact products overall arg =
       (case arg of
          None \<Rightarrow> (if overall = [] then None else Some (hd overall))
        | Some n \<Rightarrow>
            (case find (\<lambda>p. product_name p = n) products of
               Some p \<Rightarrow> Some (product_expert p)
             | None \<Rightarrow> (if overall = [] then None else Some (hd overall))))
     \<and> router_get_expert_contact products overall arg = fm_get_expert_contact products overall arg
     \<and> (overall \<noteq> [] \<longrightarrow> fm_get_expert_contact products overall arg \<noteq> None)"
proof -
  have ov: "overall_expert overall = (if overall = [] then None else Some (hd overall))"
    by (cases overall) (simp_all add: overall_expert_def)
  have a: "fm_get_expert_contact products overall arg =
       (case arg of
          None \<Rightarrow> (if overall = [] then None else Some (hd overall))
        | Some n \<Rightarrow>
            (case find (\<lambda>p. product_name p = n) products of
               Some p \<Rightarrow> Some (product_expert p)
             | None \<Rightarrow> (if overall = [] then None else Some (hd overall))))"
  proof (cases arg)
    case None
    then show ?thesis by (simp add: fm_get_expert_contact_def truthy_def ov)
  next
    case (Some n)
    show ?thesis
    proof (cases "n = []")
      case True
      have "find (\<lambda>p. product_name p = []) products = None"
        using assms by (force simp: find_None_iff)
      then show ?thesis using Some True
        by (simp add: fm_get_expert_contact_def truthy_def ov)
    next
      case False
      then show ?thesis using Some
        by (cases overall)
          (simp_all add: fm_get_expert_contact_def truthy_def overall_expert_def product_loop_find
            split: option.splits)
    qed
  qed
  have b: "router_get_expert_contact products overall arg = fm_get_expert_contact products overall arg"
    by (simp add: router_get_expert_contact_def fm_get_expert_contact_def)
  have c: "overall \<noteq> [] \<longrightarrow> fm_get_expert_contact products overall arg \<noteq> None"
    by (simp add: fm_get_expert_contact_def ov split: option.splits)
  from a b c show ?thesis by blast
qed

theorem expert_contact_fallback_witness:
  "[] \<notin> set (map product_name IOT_PRODUCTS)
   \<and> OVERALL_EXPERTS \<noteq> []
   \<and> map_option expert_name (fm_get_expert_contact IOT_PRODUCTS OVERALL_EXPERTS (Some ''Smart Thermostat''))
       = Some ''Mike Chen''
   \<and> map_option expert_name (fm_get_expert_contact IOT_PRODUCTS OVERALL_EXPERTS (Some ''Toaster''))
       = Some ''Dr. Emily Rodriguez''
   \<and> map_option expert_name (router_get_expert_contact IOT_PRODUCTS OVERALL_EXPERTS None)
       = Some ''Dr. Emily Rodriguez''"
proof -
  have h: "[] \<notin> set (map product_name IOT_PRODUCTS)" by (simp add: IOT_PRODUCTS_def)
  from expert_contact_fallback[OF h, of OVERALL_EXPERTS "Some ''Smart Thermostat''"]
    expert_contact_fallback[OF h, of OVERALL_EXPERTS "Some ''Toaster''"]
    expert_contact_fallback[OF h, of OVERALL_EXPERTS None]
    h
  show ?thesis by (simp add: IOT_PRODUCTS_def OVERALL_EXPERTS_def)
qed

end
